theory Spec2Isabelle
  imports Complex_Main "HOL-Library.Sublist"
begin

section \<open>JavaScript strings and numbers\<close>

text \<open>
  Strings are lists of 8-bit characters (code units below 256); the hash fragment, the
  query segment and the e-mail addresses handled here are ASCII. Numbers that the
  program uses as identifiers are integers; the model keeps them exact (JavaScript rounds
  integers beyond \<open>2^53\<close> to the nearest double and prints integers from \<open>10^21\<close> on in
  exponent notation, which no identifier of the application reaches).
\<close>

text \<open>\<^verbatim>\<open>StrWhiteSpaceChar\<close> of ECMAScript, restricted to code units below 256:
  TAB, LF, VT, FF, CR, SPACE and NBSP.\<close>

definition isStrWhiteSpaceChar :: "char \<Rightarrow> bool" where
  "isStrWhiteSpaceChar c =
     (c = CHR 0x09 \<or> c = CHR 0x0A \<or> c = CHR 0x0B \<or> c = CHR 0x0C \<or> c = CHR 0x0D
      \<or> c = CHR 0x20 \<or> c = CHR 0xA0)"

text \<open>The value of a character as a digit of some radix up to 36.\<close>

definition digit_value :: "char \<Rightarrow> nat option" where
  "digit_value c =
     (let k = (of_char c :: nat) in
      if 48 \<le> k \<and> k \<le> 57 then Some (k - 48)
      else if 97 \<le> k \<and> k \<le> 122 then Some (k - 87)
      else if 65 \<le> k \<and> k \<le> 90 then Some (k - 55)
      else None)"

definition is_radix_digit :: "nat \<Rightarrow> char \<Rightarrow> bool" where
  "is_radix_digit R c = (case digit_value c of Some d \<Rightarrow> d < R | None \<Rightarrow> False)"

definition radix_value :: "nat \<Rightarrow> string \<Rightarrow> nat" where
  "radix_value R Z =
     foldl (\<lambda>acc c. acc * R + (case digit_value c of Some d \<Rightarrow> d | None \<Rightarrow> 0)) 0 Z"

text \<open>
  \<^verbatim>\<open>parseInt(string, radix)\<close>, following the steps of ECMAScript: skip leading white
  space, read an optional sign, settle the radix (an absent radix means 10, or 16 after a
  \<^verbatim>\<open>0x\<close> prefix), take the longest run of digits of that radix and ignore whatever
  follows. \<open>None\<close> is \<^verbatim>\<open>NaN\<close>. The radix argument is \<open>None\<close> when the call gives none.
\<close>

definition parseInt :: "string \<Rightarrow> nat option \<Rightarrow> int option" where
  "parseInt string radix =
     (let S0 = dropWhile isStrWhiteSpaceChar string;
          sign = (if S0 \<noteq> [] \<and> hd S0 = CHR ''-'' then - 1 else 1 :: int);
          S1 = (if S0 \<noteq> [] \<and> (hd S0 = CHR ''+'' \<or> hd S0 = CHR ''-'') then tl S0 else S0);
          R0 = (case radix of None \<Rightarrow> 0 | Some r \<Rightarrow> r)
      in if R0 \<noteq> 0 \<and> (R0 < 2 \<or> 36 < R0) then None
         else
           let stripPrefix = (R0 = 0 \<or> R0 = 16);
               R1 = (if R0 = 0 then 10 else R0);
               hex = (stripPrefix \<and> (take 2 S1 = ''0x'' \<or> take 2 S1 = ''0X''));
               S2 = (if hex then drop 2 S1 else S1);
               R = (if hex then 16 else R1);
               Z = takeWhile (is_radix_digit R) S2
           in if Z = [] then None else Some (sign * int (radix_value R Z)))"

text \<open>The sign that \<^verbatim>\<open>parseInt\<close> reads from a sign prefix.\<close>

definition sign_of :: "string \<Rightarrow> int" where
  "sign_of sg = (if sg = ''-'' then - 1 else 1)"


text \<open>\<^verbatim>\<open>s.startsWith(p)\<close>.\<close>

definition startsWith :: "string \<Rightarrow> string \<Rightarrow> bool" where
  "startsWith s p = (take (length p) s = p)"

text \<open>\<^verbatim>\<open>s.replace(pat, rep)\<close> with a string pattern: the first occurrence of \<open>pat\<close>
  is replaced (the replacements used by the program are empty, so the \<^verbatim>\<open>$\<close> patterns
  of a replacement string play no part).\<close>

fun replace :: "string \<Rightarrow> string \<Rightarrow> string \<Rightarrow> string" where
  "replace [] pat rep = (if pat = [] then rep else [])"
| "replace (c # cs) pat rep =
     (if startsWith (c # cs) pat then rep @ drop (length pat) (c # cs)
      else c # replace cs pat rep)"

text \<open>\<^verbatim>\<open>s.split(sep)\<close> for a separator of one character.\<close>

fun split :: "string \<Rightarrow> char \<Rightarrow> string list" where
  "split [] sep = [[]]"
| "split (c # cs) sep =
     (if c = sep then [] # split cs sep
      else (case split cs sep of [] \<Rightarrow> [[c]] | x # xs \<Rightarrow> (c # x) # xs))"

text \<open>Reading an array element: \<open>None\<close> is \<^verbatim>\<open>undefined\<close>.\<close>

definition at_index :: "'a list \<Rightarrow> nat \<Rightarrow> 'a option" where
  "at_index xs i = (if i < length xs then Some (xs ! i) else None)"

text \<open>The decimal rendering of an integer, as a template literal prints it.\<close>

fun string_of_nat :: "nat \<Rightarrow> string" where
  "string_of_nat n =
     (if n < 10 then [char_of (48 + n)]
      else string_of_nat (n div 10) @ [char_of (48 + n mod 10)])"

declare string_of_nat.simps [simp del]

definition number_to_string :: "int \<Rightarrow> string" where
  "number_to_string i = (if i < 0 then CHR ''-'' # string_of_nat (nat (- i)) else string_of_nat (nat i))"

section \<open>Data model\<close>

text \<open>
  The entity types are declared in \<^verbatim>\<open>types.ts\<close>, which the fixtures and the services
  import; the fields below are the ones the fixtures of \<^verbatim>\<open>mockData.ts\<close> populate.
  \<open>OTHER\<close> stands for a role value outside the enumeration, which a user object restored
  from session storage can carry and which the router's \<^verbatim>\<open>default\<close> branch receives.
\<close>

datatype UserRole = READER | WRITER | ADMIN | DEVELOPER | OTHER string

text \<open>
  \<^verbatim>\<open>user_id\<close> is the one identifier the program computes: \<^verbatim>\<open>signup\<close> takes
  \<^verbatim>\<open>Math.max\<close> of the existing ids, which is \<^verbatim>\<open>-Infinity\<close> for no ids at all.
\<close>

datatype jsnum = NegInfinity | Num int

fun jsnum_max :: "jsnum \<Rightarrow> jsnum \<Rightarrow> jsnum" where
  "jsnum_max NegInfinity y = y"
| "jsnum_max x NegInfinity = x"
| "jsnum_max (Num a) (Num b) = Num (max a b)"

fun jsnum_add :: "jsnum \<Rightarrow> int \<Rightarrow> jsnum" where
  "jsnum_add NegInfinity k = NegInfinity"
| "jsnum_add (Num a) k = Num (a + k)"


text \<open>\<^verbatim>\<open>Math.max(...xs)\<close>.\<close>

definition Math_max :: "jsnum list \<Rightarrow> jsnum" where
  "Math_max xs = foldl jsnum_max NegInfinity xs"

text \<open>A value that may be \<^verbatim>\<open>null\<close> or \<^verbatim>\<open>undefined\<close>.\<close>

datatype 'a nullable = Null | Undefined | Value 'a

record user =
  user_id :: jsnum
  username :: string
  email :: string
  role :: UserRole
  created_at :: string
  profile_picture :: "string option"
  bio :: "string option"

record author =
  user_id :: jsnum
  username :: string

text \<open>
  Instants (\<^verbatim>\<open>last_update\<close>, \<^verbatim>\<open>release_date\<close>) are kept as milliseconds since the
  epoch; the program stores their ISO-8601 rendering, whose order as a string is the
  order of the instants. \<^verbatim>\<open>rating\<close> is the decimal that \<^verbatim>\<open>toFixed(2)\<close> prints.
\<close>

record novel =
  novel_id :: int
  title :: string
  description :: string
  cover_image :: string
  tags :: "string list"
  status :: string
  last_update :: int
  views :: int
  likes :: int
  rating :: rat
  author :: author

record episode =
  episode_id :: int
  novel_id :: int
  title :: string
  content :: string
  is_locked :: bool
  price :: int
  release_date :: int

text \<open>What the program can throw: the built-in \<^verbatim>\<open>Error\<close>, \<^verbatim>\<open>TypeError\<close> and
  \<^verbatim>\<open>SyntaxError\<close>, each with its message, and the three failure kinds that the
  specification names for the data access layer.\<close>

datatype js_error =
    Error string
  | TypeError string
  | SyntaxError string
  | NotFoundError string
  | ConflictError string
  | TransportError string

fun is_normalized :: "js_error \<Rightarrow> bool" where
  "is_normalized (NotFoundError m) = True"
| "is_normalized (ConflictError m) = True"
| "is_normalized (TransportError m) = True"
| "is_normalized e = False"

section \<open>Fixtures of \<^verbatim>\<open>mockData.ts\<close>\<close>

definition ReaderJoe :: user where
  "ReaderJoe = \<lparr>user.user_id = Num 1, username = ''ReaderJoe'', email = ''reader@test.com'',
     role = READER, created_at = ''2023-01-15T09:30:00Z'',
     profile_picture = Some ''https://picsum.photos/seed/user1/100/100'', bio = None\<rparr>"

definition WriterJane :: user where
  "WriterJane = \<lparr>user.user_id = Num 2, username = ''WriterJane'', email = ''writer@test.com'',
     role = WRITER, created_at = ''2023-02-20T14:00:00Z'',
     profile_picture = Some ''https://picsum.photos/seed/user2/100/100'',
     bio = Some ''Avid writer of fantasy.''\<rparr>"

definition AdminAlex :: user where
  "AdminAlex = \<lparr>user.user_id = Num 3, username = ''AdminAlex'', email = ''admin@test.com'',
     role = ADMIN, created_at = ''2023-01-10T08:00:00Z'',
     profile_picture = Some ''https://picsum.photos/seed/user3/100/100'', bio = None\<rparr>"

definition DevSam :: user where
  "DevSam = \<lparr>user.user_id = Num 4, username = ''DevSam'', email = ''dev@test.com'',
     role = DEVELOPER, created_at = ''2023-03-05T18:45:00Z'',
     profile_picture = Some ''https://picsum.photos/seed/user4/100/100'', bio = None\<rparr>"

text \<open>The initial contents of the array \<^verbatim>\<open>mockUsers\<close>; \<^verbatim>\<open>signup\<close> pushes onto it.\<close>

definition mockUsers :: "user list" where
  "mockUsers = [ReaderJoe, WriterJane, AdminAlex, DevSam]"

text \<open>
  The novels and episodes are built when the module loads, each with its own reading of
  \<^verbatim>\<open>Date.now()\<close>. \<open>clock k\<close> is the \<open>k\<close>-th reading: the twelve novels take readings
  \<open>0\<close> to \<open>11\<close>, the sixty episodes the readings from \<open>12\<close> on, in the order of
  construction.
\<close>

definition mockNovel :: "(nat \<Rightarrow> int) \<Rightarrow> nat \<Rightarrow> novel" where
  "mockNovel clock i =
     \<lparr>novel.novel_id = 101 + int i,
      title = ''The Crimson Cipher '' @ number_to_string (int i + 1),
      description = ''A thrilling adventure in a world of ancient magic and futuristic technology. A young hero must decode the secrets of a powerful artifact before it falls into the wrong hands.'',
      cover_image = ''https://picsum.photos/seed/novel'' @ number_to_string (int i) @ ''/400/600'',
      tags = [''Fantasy'', ''Adventure'', ''Sci-Fi''],
      status = (if i mod 3 = 0 then ''Completed'' else ''Ongoing''),
      last_update = clock i - int i * 1000 * 3600 * 24,
      views = 16458 + int i * 123,
      likes = 2010 + int i * 45,
      rating = (45 - of_nat i) / 10,
      author = \<lparr>author.user_id = Num 2, username = ''WriterJane''\<rparr>\<rparr>"

definition mockNovels :: "(nat \<Rightarrow> int) \<Rightarrow> novel list" where
  "mockNovels clock = map (mockNovel clock) [0..<12]"

definition mockEpisode :: "(nat \<Rightarrow> int) \<Rightarrow> nat \<Rightarrow> novel \<Rightarrow> nat \<Rightarrow> episode" where
  "mockEpisode clock k nv i =
     \<lparr>episode_id = novel.novel_id nv * 100 + int i + 1,
      novel_id = novel.novel_id nv,
      title = ''Chapter '' @ number_to_string (int i + 1) @ '': The Discovery'',
      content = ''Lorem ipsum dolor sit amet, consectetur adipiscing elit. Quisque a libero sit amet tortor sagittis maximus nec eu felis. In hac habitasse platea dictumst. Sed vitae feugiat quam, id rhoncus ante. Vivamus rhoncus, justo eget ullamcorper feugiat, enim orci blandit ex, et malesuada enim nulla et ex. ''
                @ concat (replicate 200 ''Lorem ipsum ''),
      is_locked = (2 < i),
      price = 10,
      release_date = clock (12 + 5 * k + i) - (5 - int i) * 1000 * 3600 * 24 * 7\<rparr>"

text \<open>\<^verbatim>\<open>mockNovels.flatMap(novel => Array.from({ length: 5 }, ...))\<close>; \<open>k\<close> is the
  position of the novel.\<close>

definition mockEpisodes :: "(nat \<Rightarrow> int) \<Rightarrow> episode list" where
  "mockEpisodes clock =
     concat (map (\<lambda>(k, nv). map (mockEpisode clock k nv) [0..<5])
                 (enumerate 0 (mockNovels clock)))"

section \<open>The mock data access layer\<close>

text \<open>\<^verbatim>\<open>xs.find(p)\<close>: the first element that satisfies \<open>p\<close>, or \<^verbatim>\<open>undefined\<close>.\<close>

definition array_find :: "('a \<Rightarrow> bool) \<Rightarrow> 'a list \<Rightarrow> 'a nullable" where
  "array_find p xs = (case List.find p xs of Some x \<Rightarrow> Value x | None \<Rightarrow> Undefined)"

text \<open>\<^verbatim>\<open>xs.slice(a, b)\<close> for \<open>0 \<le> a \<le> b\<close>.\<close>

definition slice :: "'a list \<Rightarrow> nat \<Rightarrow> nat \<Rightarrow> 'a list" where
  "slice xs a b = take (b - a) (drop a xs)"

text \<open>
  \<^verbatim>\<open>apiService.login\<close> of the mock service, on the current contents of
  \<^verbatim>\<open>mockUsers\<close>. The password is not looked at. The result is the value the promise
  resolves to, or the error it rejects with.
\<close>

definition mock_login :: "user list \<Rightarrow> string \<Rightarrow> string \<Rightarrow> js_error + user nullable" where
  "mock_login users eml pass =
     (case array_find (\<lambda>u. email u = eml) users of
        Value u \<Rightarrow> Inr (Value u)
      | _ \<Rightarrow>
          if eml = ''reader@test.com'' then Inr (array_find (\<lambda>u. role u = READER) users)
          else if eml = ''writer@test.com'' then Inr (array_find (\<lambda>u. role u = WRITER) users)
          else if eml = ''admin@test.com'' then Inr (array_find (\<lambda>u. role u = ADMIN) users)
          else if eml = ''dev@test.com'' then Inr (array_find (\<lambda>u. role u = DEVELOPER) users)
          else Inl (Error ''User not found''))"

text \<open>
  \<^verbatim>\<open>apiService.signup\<close> of the mock service. \<open>now\<close> is
  \<^verbatim>\<open>new Date().toISOString()\<close> and \<open>rnd\<close> the printed \<^verbatim>\<open>Math.random()\<close> at the
  time of the call. The function returns the outcome of the promise and the new contents
  of \<^verbatim>\<open>mockUsers\<close>.
\<close>

definition mock_signup ::
  "user list \<Rightarrow> string \<Rightarrow> string \<Rightarrow> string \<Rightarrow> string \<Rightarrow> string
     \<Rightarrow> (js_error + user nullable) \<times> user list" where
  "mock_signup users now rnd usrname eml pass =
     (let newUser =
            \<lparr>user.user_id = jsnum_add (Math_max (map user.user_id users)) 1,
             username = usrname,
             email = eml,
             role = READER,
             created_at = now,
             profile_picture = Some (''https://picsum.photos/seed/user'' @ rnd @ ''/100/100''),
             bio = None\<rparr>
      in (Inr (Value newUser), users @ [newUser]))"

definition mock_getRecommendedNovels :: "(nat \<Rightarrow> int) \<Rightarrow> novel list" where
  "mock_getRecommendedNovels clock = slice (mockNovels clock) 0 6"

definition mock_getFantasyNovels :: "(nat \<Rightarrow> int) \<Rightarrow> novel list" where
  "mock_getFantasyNovels clock = slice (mockNovels clock) 6 12"

definition mock_getNovelById :: "(nat \<Rightarrow> int) \<Rightarrow> int \<Rightarrow> novel nullable" where
  "mock_getNovelById clock n = array_find (\<lambda>nv. novel.novel_id nv = n) (mockNovels clock)"

definition mock_getEpisodesByNovelId :: "(nat \<Rightarrow> int) \<Rightarrow> int \<Rightarrow> episode list" where
  "mock_getEpisodesByNovelId clock novelId =
     filter (\<lambda>e. episode.novel_id e = novelId) (mockEpisodes clock)"


section \<open>JSON values and the transport\<close>

text \<open>
  A parsed JSON value. An object is its list of members in the order of the text; a
  member written twice reads as its last value. Numbers are integers.
\<close>

datatype json =
    JNull
  | JBool bool
  | JNum int
  | JStr string
  | JArr "json list"
  | JObj "(string \<times> json) list"

text \<open>\<^verbatim>\<open>v.key\<close> on a parsed value, for the keys the services read (\<^verbatim>\<open>error\<close> and
  \<^verbatim>\<open>episode_id\<close>): reading a property of \<^verbatim>\<open>null\<close> throws; an object gives its
  member, or \<^verbatim>\<open>undefined\<close> when it has none of that name; numbers, strings, booleans
  and arrays have no such property and give \<^verbatim>\<open>undefined\<close>.\<close>

definition get_property :: "json \<Rightarrow> string \<Rightarrow> js_error + json nullable" where
  "get_property v key =
     (case v of
        JNull \<Rightarrow> Inl (TypeError (''Cannot read properties of null (reading '' @ key @ '')''))
      | JObj members \<Rightarrow>
          (case map_of (rev members) key of Some x \<Rightarrow> Inr (Value x) | None \<Rightarrow> Inr Undefined)
      | _ \<Rightarrow> Inr Undefined)"

text \<open>Truthiness of a value read from a parsed body.\<close>

fun truthy :: "json nullable \<Rightarrow> bool" where
  "truthy Null = False"
| "truthy Undefined = False"
| "truthy (Value JNull) = False"
| "truthy (Value (JBool b)) = b"
| "truthy (Value (JNum n)) = (n \<noteq> 0)"
| "truthy (Value (JStr s)) = (s \<noteq> [])"
| "truthy (Value (JArr xs)) = True"
| "truthy (Value (JObj ms)) = True"

fun join_comma :: "string list \<Rightarrow> string" where
  "join_comma [] = []"
| "join_comma [x] = x"
| "join_comma (x # y # ys) = x @ '','' @ join_comma (y # ys)"

text \<open>\<^verbatim>\<open>String(v)\<close>, which \<^verbatim>\<open>new Error(v)\<close> applies to its message.\<close>

fun to_string :: "json \<Rightarrow> string" where
  "to_string JNull = ''null''"
| "to_string (JBool b) = (if b then ''true'' else ''false'')"
| "to_string (JNum n) = number_to_string n"
| "to_string (JStr s) = s"
| "to_string (JArr xs) = join_comma (map (\<lambda>x. if x = JNull then [] else to_string x) xs)"
| "to_string (JObj ms) = ''[object Object]''"

text \<open>
  A response as \<^verbatim>\<open>fetchAPI\<close> sees it: the status, and what \<^verbatim>\<open>response.json()\<close>
  resolves to or rejects with (a body that is not JSON rejects with a
  \<^verbatim>\<open>SyntaxError\<close>).
\<close>

record response =
  status :: nat
  body :: "js_error + json"

definition ok :: "response \<Rightarrow> bool" where
  "ok r = (200 \<le> status r \<and> status r \<le> 299)"

record request_init =
  http_method :: "string option"
  headers :: "(string \<times> string) list option"
  payload :: "string option"

text \<open>\<^verbatim>\<open>{ ...defaultOptions, ...options }\<close>: a member of \<open>options\<close> replaces the
  default's.\<close>

definition spread :: "request_init \<Rightarrow> request_init \<Rightarrow> request_init" where
  "spread d opts =
     \<lparr>http_method = (case http_method opts of Some m \<Rightarrow> Some m | None \<Rightarrow> http_method d),
      headers = (case headers opts of Some h \<Rightarrow> Some h | None \<Rightarrow> headers d),
      payload = (case payload opts of Some b \<Rightarrow> Some b | None \<Rightarrow> payload d)\<rparr>"

definition defaultOptions :: request_init where
  "defaultOptions =
     \<lparr>http_method = None, headers = Some [(''Content-Type'', ''application/json'')], payload = None\<rparr>"

definition no_options :: request_init where
  "no_options = \<lparr>http_method = None, headers = None, payload = None\<rparr>"

text \<open>The browser's \<^verbatim>\<open>fetch\<close>: \<open>Inl\<close> is a rejected promise (no response at all).\<close>

type_synonym fetch = "string \<Rightarrow> request_init \<Rightarrow> js_error + response"

text \<open>The message of the error thrown for a response that is not ok:
  \<^verbatim>\<open>errorData.error || `API call failed with status ${response.status}`\<close>.\<close>

definition error_message :: "json nullable \<Rightarrow> nat \<Rightarrow> string" where
  "error_message msg code =
     (case msg of
        Value v \<Rightarrow>
          if truthy msg then to_string v
          else ''API call failed with status '' @ number_to_string (int code)
      | _ \<Rightarrow> ''API call failed with status '' @ number_to_string (int code))"

text \<open>\<^verbatim>\<open>fetchAPI\<close> of \<^verbatim>\<open>services/apiService.ts\<close>. Each \<^verbatim>\<open>await\<close> passes a
  rejection on to the caller: the function has no \<^verbatim>\<open>try\<close>.\<close>

definition fetchAPI :: "fetch \<Rightarrow> string \<Rightarrow> request_init \<Rightarrow> js_error + json" where
  "fetchAPI fetch url options =
     (case fetch url (spread defaultOptions options) of
        Inl e \<Rightarrow> Inl e
      | Inr response \<Rightarrow>
          if \<not> ok response then
            (case body response of
               Inl e \<Rightarrow> Inl e
             | Inr errorData \<Rightarrow>
                 (case get_property errorData ''error'' of
                    Inl e \<Rightarrow> Inl e
                  | Inr msg \<Rightarrow> Inl (Error (error_message msg (status response)))))
          else body response)"

text \<open>Two transports for the examples: a network that is down, where \<^verbatim>\<open>fetch\<close>
  rejects, and a gateway that answers 502 with a body that is not JSON.\<close>

definition offline_fetch :: fetch where
  "offline_fetch url opts = Inl (TypeError ''Failed to fetch'')"

definition bad_gateway_fetch :: fetch where
  "bad_gateway_fetch url opts =
     Inr \<lparr>status = 502, body = Inl (SyntaxError ''Unexpected token < in JSON at position 0'')\<rparr>"

section \<open>The episodes route and the remote data access layer\<close>

text \<open>
  The table behind \<^verbatim>\<open>prisma.episode\<close>, and whether the store answers. The query
  \<^verbatim>\<open>findMany({ where: { novel_id: id }, orderBy: { release_date: 'asc' } })\<close> is the
  library's: it throws when the store does not answer or when \<open>id\<close> is not a number, and
  otherwise returns the rows of the novel in ascending order of \<^verbatim>\<open>release_date\<close>.
\<close>

record database =
  episodes :: "episode list"
  available :: bool

definition prisma_episode_findMany :: "database \<Rightarrow> int option \<Rightarrow> js_error + episode list" where
  "prisma_episode_findMany db n =
     (if \<not> available db then Inl (Error ''Can not reach database server'')
      else
        (case n of
           None \<Rightarrow> Inl (Error ''Invalid value for argument novel_id'')
         | Some k \<Rightarrow> Inr (sort_key release_date (filter (\<lambda>e. episode.novel_id e = k) (episodes db)))))"

text \<open>\<^verbatim>\<open>res.json(episodes)\<close> writes each row as an object of its columns; the instant
  \<^verbatim>\<open>release_date\<close> is written here as its number of milliseconds.\<close>

definition episode_json :: "episode \<Rightarrow> json" where
  "episode_json e =
     JObj [(''episode_id'', JNum (episode_id e)),
           (''novel_id'', JNum (episode.novel_id e)),
           (''title'', JStr (episode.title e)),
           (''content'', JStr (content e)),
           (''is_locked'', JBool (is_locked e)),
           (''price'', JNum (price e)),
           (''release_date'', JNum (release_date e))]"

record api_request =
  req_method :: string
  query_novelId :: string

definition error_response :: "nat \<Rightarrow> string \<Rightarrow> response" where
  "error_response code msg = \<lparr>status = code, body = Inr (JObj [(''error'', JStr msg)])\<rparr>"

text \<open>The handler of the episodes route (\<^verbatim>\<open>pages/api/novels/[novelId]/episodes\<close>).\<close>

definition handler :: "database \<Rightarrow> api_request \<Rightarrow> response" where
  "handler db req =
     (let n = parseInt (query_novelId req) None in
      if req_method req \<noteq> ''GET'' then error_response 405 ''Method not allowed''
      else
        (case prisma_episode_findMany db n of
           Inr eps \<Rightarrow> \<lparr>status = 200, body = Inr (JArr (map episode_json eps))\<rparr>
         | Inl error \<Rightarrow> error_response 500 ''Failed to fetch episodes''))"

text \<open>
  A \<^verbatim>\<open>fetch\<close> whose requests reach the application's own server: a path
  \<^verbatim>\<open>/api/novels/<segment>/episodes\<close> with a non-empty segment free of \<^verbatim>\<open>/\<close> is
  served by the handler with that segment as \<^verbatim>\<open>novelId\<close>; a request without a method
  is a \<^verbatim>\<open>GET\<close>. Other paths have no route here.
\<close>

definition endsWith :: "string \<Rightarrow> string \<Rightarrow> bool" where
  "endsWith s p = (length p \<le> length s \<and> drop (length s - length p) s = p)"

definition server_fetch :: "database \<Rightarrow> fetch" where
  "server_fetch db url opts =
     (let seg = take (length url - 21) (drop 12 url) in
      if startsWith url ''/api/novels/'' \<and> endsWith url ''/episodes'' \<and> 21 < length url
         \<and> CHR ''/'' \<notin> set seg
      then Inr (handler db
                 \<lparr>req_method = (case http_method opts of Some m \<Rightarrow> m | None \<Rightarrow> ''GET''),
                  query_novelId = seg\<rparr>)
      else Inr \<lparr>status = 404, body = Inl (SyntaxError ''Unexpected token < in JSON'')\<rparr>)"

text \<open>\<^verbatim>\<open>apiService.getEpisodesByNovelId\<close> and \<^verbatim>\<open>apiService.getEpisode\<close> of the
  remote service. The parsed body is used as it comes: \<^verbatim>\<open>find\<close> exists on arrays
  only, and reading \<^verbatim>\<open>episode_id\<close> of a \<^verbatim>\<open>null\<close> element throws.\<close>

definition remote_getEpisodesByNovelId :: "fetch \<Rightarrow> int \<Rightarrow> js_error + json" where
  "remote_getEpisodesByNovelId fetch novelId =
     fetchAPI fetch (''/api/novels/'' @ number_to_string novelId @ ''/episodes'') no_options"

fun json_find :: "(json \<Rightarrow> js_error + bool) \<Rightarrow> json list \<Rightarrow> js_error + json nullable" where
  "json_find p [] = Inr Undefined"
| "json_find p (x # xs) =
     (case p x of
        Inl e \<Rightarrow> Inl e
      | Inr b \<Rightarrow> if b then Inr (Value x) else json_find p xs)"

definition remote_getEpisode :: "fetch \<Rightarrow> int \<Rightarrow> int \<Rightarrow> js_error + json nullable" where
  "remote_getEpisode fetch novelId episodeId =
     (case remote_getEpisodesByNovelId fetch novelId of
        Inl e \<Rightarrow> Inl e
      | Inr eps \<Rightarrow>
          (case eps of
             JArr xs \<Rightarrow>
               json_find
                 (\<lambda>e. case get_property e ''episode_id'' of
                         Inl er \<Rightarrow> Inl er
                       | Inr v \<Rightarrow> Inr (v = Value (JNum episodeId)))
                 xs
           | _ \<Rightarrow> Inl (TypeError ''eps.find is not a function'')))"

section \<open>The session manager of \<^verbatim>\<open>context/AuthContext.tsx\<close>\<close>

text \<open>
  The state: the identity held by the provider and the browser's session storage.
  \<^verbatim>\<open>setItem\<close> throws when the storage refuses the write (\<open>writable\<close> is false).
  \<open>stringify\<close> is \<^verbatim>\<open>JSON.stringify\<close> on users.
\<close>

record auth_state =
  currentUser :: "user nullable"
  sessionStorage :: "string \<rightharpoonup> string"
  writable :: bool

definition setItem :: "auth_state \<Rightarrow> string \<Rightarrow> string \<Rightarrow> js_error + auth_state" where
  "setItem st key v =
     (if writable st then Inr (st\<lparr>sessionStorage := (sessionStorage st)(key \<mapsto> v)\<rparr>)
      else Inl (Error ''QuotaExceededError''))"

text \<open>
  \<^verbatim>\<open>login\<close> of \<^verbatim>\<open>AuthProvider\<close>. \<open>dal_login\<close> is \<^verbatim>\<open>apiService.login\<close>. The body
  of the \<^verbatim>\<open>try\<close> is \<open>login_body\<close>: it gives the state reached and either the value
  returned or the error thrown; the \<^verbatim>\<open>catch\<close> turns an error into \<^verbatim>\<open>null\<close>.
\<close>

definition login_body ::
  "(user \<Rightarrow> string) \<Rightarrow> (string \<Rightarrow> string \<Rightarrow> js_error + user nullable) \<Rightarrow> auth_state
     \<Rightarrow> string \<Rightarrow> string \<Rightarrow> (js_error + user nullable) \<times> auth_state" where
  "login_body stringify dal_login st eml pass =
     (case dal_login eml pass of
        Inl e \<Rightarrow> (Inl e, st)
      | Inr loggedUser \<Rightarrow>
          (case loggedUser of
             Value u \<Rightarrow>
               (let st1 = st\<lparr>currentUser := Value u\<rparr> in
                case setItem st1 ''user'' (stringify u) of
                  Inl e \<Rightarrow> (Inl e, st1)
                | Inr st2 \<Rightarrow> (Inr loggedUser, st2))
           | _ \<Rightarrow> (Inr loggedUser, st)))"

definition AuthProvider_login ::
  "(user \<Rightarrow> string) \<Rightarrow> (string \<Rightarrow> string \<Rightarrow> js_error + user nullable) \<Rightarrow> auth_state
     \<Rightarrow> string \<Rightarrow> string \<Rightarrow> (js_error + user nullable) \<times> auth_state" where
  "AuthProvider_login stringify dal_login st eml pass =
     (case login_body stringify dal_login st eml pass of
        (Inl error, st') \<Rightarrow> (Inr Null, st')
      | (Inr r, st') \<Rightarrow> (Inr r, st'))"

definition AuthProvider_logout :: "auth_state \<Rightarrow> auth_state" where
  "AuthProvider_logout st =
     st\<lparr>currentUser := Null, sessionStorage := (sessionStorage st)(''user'' := None)\<rparr>"

section \<open>Comment threading\<close>

text \<open>
  A comment as the fixture \<^verbatim>\<open>mockComments\<close> and section 3 of the specification have
  it; the fields that other entities also have carry the prefix \<open>comment_\<close>. The
  derived \<^verbatim>\<open>replies\<close> are the children of a node of type \<open>thread\<close>.
\<close>

record comment =
  comment_id :: int
  comment_episode_id :: int
  comment_user_id :: jsnum
  comment_content :: string
  comment_created_at :: string
  parent_comment_id :: "int option"

datatype thread = Thread comment "thread list"

text \<open>
  Modelled from the spec: the transform that builds the reply forest from the flat
  comment list of an episode is not among the sources (the fixture \<^verbatim>\<open>mockComments\<close>
  comes already nested, and the page that shows the comments is absent). \<open>attach\<close>
  follows section 4.4 of the specification: a comment receives as replies its direct
  children, those whose \<^verbatim>\<open>parent_comment_id\<close> equals its \<^verbatim>\<open>comment_id\<close>, in their
  original order, and each child receives its own children in the same way. One level
  of replies uses one unit of \<open>fuel\<close>.
\<close>

fun attach :: "nat \<Rightarrow> comment list \<Rightarrow> comment \<Rightarrow> thread" where
  "attach 0 children c = Thread c []"
| "attach (Suc fuel) children c =
     Thread c (map (attach fuel children)
                 (filter (\<lambda>d. parent_comment_id d = Some (comment_id c)) children))"

text \<open>
  Modelled from the spec: the transform itself, not among the sources either. As in
  section 4.4, the comments are partitioned into roots (no \<^verbatim>\<open>parent_comment_id\<close>) and
  children, and every root is the root of a thread; children whose parent is not in
  the input are reached from no root. The transform starts with as many units of fuel
  as there are children.
\<close>

definition build_threads :: "comment list \<Rightarrow> thread list" where
  "build_threads cs =
     (let roots = filter (\<lambda>c. parent_comment_id c = None) cs;
          children = filter (\<lambda>c. parent_comment_id c \<noteq> None) cs
      in map (attach (length children) children) roots)"

text \<open>All the comments of a thread, the root first.\<close>

fun thread_comments :: "thread \<Rightarrow> comment list" where
  "thread_comments (Thread c rs) = c # concat (map thread_comments rs)"

definition forest_comments :: "thread list \<Rightarrow> comment list" where
  "forest_comments ts = concat (map thread_comments ts)"

section \<open>The hash router of \<^verbatim>\<open>App.tsx\<close>\<close>

datatype view =
    LoginPage
  | NovelDetailPage int
  | ReadNovelPage int int
  | HomePage
  | WriterDashboard
  | AdminDashboard
  | DeveloperDashboard

text \<open>The \<^verbatim>\<open>#/novel/\<close> branch: \<open>None\<close> when the branch does not return.\<close>

definition novel_route :: "string \<Rightarrow> view option" where
  "novel_route hash =
     (if startsWith hash ''#/novel/'' then
        (case parseInt (replace hash ''#/novel/'' '''') (Some 10) of
           Some n \<Rightarrow> Some (NovelDetailPage n)
         | None \<Rightarrow> None)
      else None)"

text \<open>The \<^verbatim>\<open>#/read/\<close> branch; \<^verbatim>\<open>parseInt(undefined, 10)\<close> parses the string
  \<^verbatim>\<open>"undefined"\<close>.\<close>

definition read_route :: "string \<Rightarrow> view option" where
  "read_route hash =
     (if startsWith hash ''#/read/'' then
        (let ids = split (replace hash ''#/read/'' '''') CHR ''/'';
             novelId = parseInt (case at_index ids 0 of Some s \<Rightarrow> s | None \<Rightarrow> ''undefined'') (Some 10);
             episodeId = parseInt (case at_index ids 1 of Some s \<Rightarrow> s | None \<Rightarrow> ''undefined'') (Some 10)
         in case (novelId, episodeId) of
              (Some n, Some e) \<Rightarrow> Some (ReadNovelPage n e)
            | _ \<Rightarrow> None)
      else None)"

text \<open>The final \<^verbatim>\<open>switch (user.role)\<close>.\<close>

fun role_view :: "UserRole \<Rightarrow> view" where
  "role_view READER = HomePage"
| "role_view WRITER = WriterDashboard"
| "role_view ADMIN = AdminDashboard"
| "role_view DEVELOPER = DeveloperDashboard"
| "role_view (OTHER r) = HomePage"

text \<open>\<^verbatim>\<open>Router\<close>, as a function of the identity held by the session manager and of
  \<^verbatim>\<open>window.location.hash\<close>. The test \<^verbatim>\<open>!user\<close> holds for \<^verbatim>\<open>null\<close> and for
  \<^verbatim>\<open>undefined\<close>.\<close>

definition Router :: "user nullable \<Rightarrow> string \<Rightarrow> view" where
  "Router usr hash =
     (case usr of
        Null \<Rightarrow> LoginPage
      | Undefined \<Rightarrow> LoginPage
      | Value u \<Rightarrow>
          (case novel_route hash of
             Some v \<Rightarrow> v
           | None \<Rightarrow>
               (case read_route hash of
                  Some v \<Rightarrow> v
                | None \<Rightarrow> role_view (role u))))"

section \<open>Auxiliary definitions for the statements below\<close>

text \<open>The five episodes that the fixture builds for the novel at position \<open>k\<close>.\<close>

definition novel_episodes :: "(nat \<Rightarrow> int) \<Rightarrow> nat \<Rightarrow> episode list" where
  "novel_episodes clock k = map (mockEpisode clock k (mockNovel clock k)) [0..<5]"

text \<open>A small store for the examples: two episodes of novel 7, stored latest first, and
  one episode of novel 8.\<close>

definition example_episode :: "int \<Rightarrow> int \<Rightarrow> int \<Rightarrow> episode" where
  "example_episode eid nid date =
     \<lparr>episode_id = eid, novel_id = nid, title = ''Chapter'', content = ''Text'',
      is_locked = False, price = 0, release_date = date\<rparr>"

definition example_database :: database where
  "example_database =
     \<lparr>episodes = [example_episode 72 7 2000, example_episode 81 8 1500, example_episode 71 7 1000],
      available = True\<rparr>"

text \<open>A comment of episode 10101 with the given id and parent.\<close>

definition example_comment :: "int \<Rightarrow> int option \<Rightarrow> comment" where
  "example_comment cid parent =
     \<lparr>comment_id = cid, comment_episode_id = 10101, comment_user_id = Num 1,
      comment_content = ''What a cliffhanger!'', comment_created_at = ''2023-10-01T12:34:56Z'',
      parent_comment_id = parent\<rparr>"

text \<open>A chain of replies below the root \<open>r\<close>, the deepest first: each comment of the
  chain answers the next one, and the last answers \<open>r\<close>. \<open>tip\<close> is the comment a chain
  has reached.\<close>

fun chain :: "comment \<Rightarrow> comment list \<Rightarrow> bool" where
  "chain r [] = True"
| "chain r [x] = (parent_comment_id x = Some (comment_id r))"
| "chain r (x # y # ys) = (parent_comment_id x = Some (comment_id y) \<and> chain r (y # ys))"

definition tip :: "comment \<Rightarrow> comment list \<Rightarrow> comment" where
  "tip r path = (case path of [] \<Rightarrow> r | x # xs \<Rightarrow> x)"

section \<open>Facts about strings, numbers and routes\<close>

lemma digit_value_char_of: "d < 10 \<Longrightarrow> digit_value (char_of (48 + d)) = Some d"
  by (simp add: digit_value_def Let_def)

lemma is_dec_digit_iff: "is_radix_digit 10 c \<longleftrightarrow> 48 \<le> (of_char c :: nat) \<and> (of_char c :: nat) \<le> 57"
  by (auto simp: is_radix_digit_def digit_value_def Let_def split: option.splits if_splits)

lemma string_of_nat_nonempty: "string_of_nat n \<noteq> []"
  by (induction n rule: string_of_nat.induct) (subst string_of_nat.simps, simp)

lemma string_of_nat_digits: "c \<in> set (string_of_nat n) \<Longrightarrow> is_radix_digit 10 c"
proof (induction n rule: string_of_nat.induct)
  case (1 n)
  show ?case
  proof (cases "n < 10")
    case True
    with "1.prems" have "c = char_of (48 + n)" by (subst (asm) string_of_nat.simps) simp
    with True show ?thesis by (simp add: is_radix_digit_def digit_value_char_of)
  next
    case False
    with "1.prems" have "c \<in> set (string_of_nat (n div 10)) \<or> c = char_of (48 + n mod 10)"
      by (subst (asm) string_of_nat.simps) auto
    then show ?thesis
    proof
      assume "c \<in> set (string_of_nat (n div 10))"
      with "1.IH" False show ?thesis by simp
    next
      assume "c = char_of (48 + n mod 10)"
      then show ?thesis by (simp add: is_radix_digit_def digit_value_char_of)
    qed
  qed
qed

lemma radix_value_snoc:
  "radix_value R (Z @ [c]) = radix_value R Z * R + (case digit_value c of Some d \<Rightarrow> d | None \<Rightarrow> 0)"
  by (simp add: radix_value_def)

lemma radix_value_string_of_nat: "radix_value 10 (string_of_nat n) = n"
proof (induction n rule: string_of_nat.induct)
  case (1 n)
  show ?case
  proof (cases "n < 10")
    case True
    then show ?thesis
      by (subst string_of_nat.simps) (simp add: radix_value_def digit_value_char_of)
  next
    case False
    with "1.IH" have "radix_value 10 (string_of_nat (n div 10)) = n div 10" by simp
    with False show ?thesis
      by (subst string_of_nat.simps) (simp add: radix_value_snoc digit_value_char_of)
  qed
qed



lemma not_ws_digit: "is_radix_digit 10 c \<Longrightarrow> \<not> isStrWhiteSpaceChar c"
  by (auto simp: is_dec_digit_iff isStrWhiteSpaceChar_def)

lemma not_sign_digit: "is_radix_digit 10 c \<Longrightarrow> c \<noteq> CHR ''+'' \<and> c \<noteq> CHR ''-''"
  by (auto simp: is_dec_digit_iff)


lemma dropWhile_prefix_all:
  "(\<And>x. x \<in> set xs \<Longrightarrow> P x) \<Longrightarrow> ys = [] \<or> \<not> P (hd ys) \<Longrightarrow> dropWhile P (xs @ ys) = ys"
  by (induction xs) (cases ys; auto)+

lemma takeWhile_prefix_all:
  "(\<And>x. x \<in> set xs \<Longrightarrow> P x) \<Longrightarrow> ys = [] \<or> \<not> P (hd ys) \<Longrightarrow> takeWhile P (xs @ ys) = xs"
  by (induction xs) (cases ys; auto)+

lemma parseInt_10_unfold:
  "parseInt s (Some 10) =
     (let S0 = dropWhile isStrWhiteSpaceChar s;
          S1 = (if S0 \<noteq> [] \<and> (hd S0 = CHR ''+'' \<or> hd S0 = CHR ''-'') then tl S0 else S0);
          Z = takeWhile (is_radix_digit 10) S1
      in if Z = [] then None
         else Some ((if S0 \<noteq> [] \<and> hd S0 = CHR ''-'' then - 1 else 1) * int (radix_value 10 Z)))"
  by (simp add: parseInt_def Let_def)


lemma parseInt_10_parts:
  assumes ws: "\<And>c. c \<in> set ws \<Longrightarrow> isStrWhiteSpaceChar c"
    and sg: "sg = [] \<or> sg = ''+'' \<or> sg = ''-''"
    and ds: "ds \<noteq> []" "\<And>c. c \<in> set ds \<Longrightarrow> is_radix_digit 10 c"
    and rest: "rest = [] \<or> \<not> is_radix_digit 10 (hd rest)"
  shows "parseInt (ws @ sg @ ds @ rest) (Some 10) = Some (sign_of sg * int (radix_value 10 ds))"
proof -
  have hd_ds: "is_radix_digit 10 (hd ds)" using ds by (cases ds) auto
  have hd_t: "hd (sg @ ds @ rest) = (if sg = [] then hd ds else hd sg)"
    using ds by (cases sg) auto
  have "\<not> isStrWhiteSpaceChar (hd (sg @ ds @ rest))"
    using sg hd_t not_ws_digit [OF hd_ds] by (auto simp: isStrWhiteSpaceChar_def)
  then have S0: "dropWhile isStrWhiteSpaceChar (ws @ sg @ ds @ rest) = sg @ ds @ rest"
    using ws by (intro dropWhile_prefix_all) auto
  have Z: "takeWhile (is_radix_digit 10) (ds @ rest) = ds"
    using ds rest by (intro takeWhile_prefix_all) auto
  from sg show ?thesis
  proof (elim disjE)
    assume "sg = []"
    then show ?thesis
      using S0 Z ds hd_ds not_sign_digit [OF hd_ds]
      by (simp add: parseInt_10_unfold sign_of_def)
  next
    assume "sg = ''+''"
    then show ?thesis
      using S0 Z ds by (simp add: parseInt_10_unfold sign_of_def)
  next
    assume "sg = ''-''"
    then show ?thesis
      using S0 Z ds by (simp add: parseInt_10_unfold sign_of_def)
  qed
qed

lemma parseInt_dec_string_of_nat: "parseInt (string_of_nat n) (Some 10) = Some (int n)"
  using parseInt_10_parts [of "[]" "[]" "string_of_nat n" "[]"]
    string_of_nat_nonempty [of n] string_of_nat_digits [of _ n]
  by (simp add: radix_value_string_of_nat sign_of_def)

lemma parseInt_dec_neg_string_of_nat:
  "parseInt (CHR ''-'' # string_of_nat n) (Some 10) = Some (- int n)"
  using parseInt_10_parts [of "[]" "''-''" "string_of_nat n" "[]"]
    string_of_nat_nonempty [of n] string_of_nat_digits [of _ n]
  by (simp add: radix_value_string_of_nat sign_of_def)

lemma parseInt_dec_number_to_string: "parseInt (number_to_string i) (Some 10) = Some i"
  by (simp add: number_to_string_def parseInt_dec_string_of_nat parseInt_dec_neg_string_of_nat)
















section \<open>The router\<close>

text \<open>
  C1. With no identity (\<^verbatim>\<open>user\<close> is \<^verbatim>\<open>null\<close>, or \<^verbatim>\<open>undefined\<close>) the router
  renders the login view whatever the hash is. The test on the identity is the first
  branch of the router: neither path pattern is consulted.
\<close>

theorem Router_no_identity_login:
  "Router Null hash = LoginPage \<and> Router Undefined hash = LoginPage"
  by (simp add: Router_def)




section \<open>Facts about the mock service\<close>

lemma find_append_last:
  "(\<And>x. x \<in> set xs \<Longrightarrow> \<not> P x) \<Longrightarrow> P u \<Longrightarrow> List.find P (xs @ [u]) = Some u"
  by (induction xs) auto

lemma array_find_append_last:
  "(\<And>x. x \<in> set xs \<Longrightarrow> \<not> P x) \<Longrightarrow> P u \<Longrightarrow> array_find P (xs @ [u]) = Value u"
  by (simp add: array_find_def find_append_last)






lemma mockNovels_length: "length (mockNovels clock) = 12"
  by (simp add: mockNovels_def)

lemma mockNovel_tags: "nv \<in> set (mockNovels clock) \<Longrightarrow> tags nv = [''Fantasy'', ''Adventure'', ''Sci-Fi'']"
  by (auto simp: mockNovels_def mockNovel_def)

lemma set_slice: "set (slice xs a b) \<subseteq> set xs"
  unfolding slice_def by (meson in_set_dropD in_set_takeD subsetI)

section \<open>Sign-up and login in the mock service\<close>




text \<open>
  C10. In the mock service, when the e-mail address is not yet in the store and
  \<^verbatim>\<open>signup\<close> has resolved to the user \<open>u\<close>, a \<^verbatim>\<open>login\<close> with that address on the
  store it left, with any password, resolves to \<open>u\<close>.
\<close>

theorem mock_signup_then_login:
  assumes "eml \<notin> set (map email users)"
    and "mock_signup users now rnd usrname eml pass = (Inr (Value u), users')"
  shows "mock_login users' eml p = Inr (Value u)"
proof -
  from assms(2) have u': "users' = users @ [u]" and e: "email u = eml"
    by (auto simp: mock_signup_def Let_def)
  have "\<And>x. x \<in> set users \<Longrightarrow> email x \<noteq> eml" using assms(1) by auto
  then have "array_find (\<lambda>x. email x = eml) (users @ [u]) = Value u"
    using e by (intro array_find_append_last) simp_all
  then show ?thesis by (simp add: mock_login_def u')
qed

text \<open>The theorem on the initial store with a fresh address.\<close>

theorem mock_signup_then_login_witness:
  "''new@test.com'' \<notin> set (map email mockUsers)
   \<and> mock_login (snd (mock_signup mockUsers ''2024-01-01T00:00:00.000Z'' ''0.5'' ''Newcomer'' ''new@test.com'' ''pw''))
        ''new@test.com'' ''another password''
       = fst (mock_signup mockUsers ''2024-01-01T00:00:00.000Z'' ''0.5'' ''Newcomer'' ''new@test.com'' ''pw'')
   \<and> (\<exists>u. fst (mock_signup mockUsers ''2024-01-01T00:00:00.000Z'' ''0.5'' ''Newcomer'' ''new@test.com'' ''pw'')
            = Inr (Value u))"
proof -
  have fresh: "''new@test.com'' \<notin> set (map email mockUsers)"
    by (simp add: mockUsers_def ReaderJoe_def WriterJane_def AdminAlex_def DevSam_def)
  obtain u users' where r:
    "mock_signup mockUsers ''2024-01-01T00:00:00.000Z'' ''0.5'' ''Newcomer'' ''new@test.com'' ''pw''
       = (Inr (Value u), users')"
    by (simp add: mock_signup_def Let_def)
  from mock_signup_then_login [OF fresh r, of "''another password''"] fresh r
  show ?thesis by simp
qed

section \<open>The session manager\<close>

text \<open>
  C5. When \<^verbatim>\<open>apiService.login\<close> throws, or resolves to no user, \<^verbatim>\<open>login\<close> of the
  session manager leaves the identity and the session storage as they were and returns
  an absent value: \<^verbatim>\<open>null\<close> when the call threw or resolved to \<^verbatim>\<open>null\<close>, and the
  \<^verbatim>\<open>undefined\<close> the call resolved to otherwise. In every case, the successful one
  included, \<^verbatim>\<open>login\<close> returns a value: no error passes the \<^verbatim>\<open>catch\<close>.
\<close>

theorem AuthProvider_login_failure:
  "(dal_login eml pass = Inl e \<longrightarrow>
      AuthProvider_login stringify dal_login st eml pass = (Inr Null, st))
   \<and> (dal_login eml pass = Inr Null \<longrightarrow>
      AuthProvider_login stringify dal_login st eml pass = (Inr Null, st))
   \<and> (dal_login eml pass = Inr Undefined \<longrightarrow>
      AuthProvider_login stringify dal_login st eml pass = (Inr Undefined, st))
   \<and> (\<exists>r st'. AuthProvider_login stringify dal_login st eml pass = (Inr r, st'))"
  by (auto simp: AuthProvider_login_def login_body_def Let_def setItem_def
      split: sum.splits nullable.splits prod.splits if_splits)

text \<open>The theorem for a signed-in reader and an unknown address on the mock service,
  and for a service that resolves to \<^verbatim>\<open>undefined\<close>.\<close>

theorem AuthProvider_login_failure_witness:
  "mock_login mockUsers ''nobody@test.com'' ''pw'' = Inl (Error ''User not found'')
   \<and> AuthProvider_login user.username (mock_login mockUsers)
        \<lparr>currentUser = Value ReaderJoe, sessionStorage = [''user'' \<mapsto> ''ReaderJoe''], writable = True\<rparr>
        ''nobody@test.com'' ''pw''
       = (Inr Null,
          \<lparr>currentUser = Value ReaderJoe, sessionStorage = [''user'' \<mapsto> ''ReaderJoe''], writable = True\<rparr>)
   \<and> AuthProvider_login user.username (\<lambda>eml pass. Inr Undefined)
        \<lparr>currentUser = Null, sessionStorage = Map.empty, writable = True\<rparr> ''a@b.c'' ''pw''
       = (Inr Undefined, \<lparr>currentUser = Null, sessionStorage = Map.empty, writable = True\<rparr>)"
proof -
  have f: "mock_login mockUsers ''nobody@test.com'' ''pw'' = Inl (Error ''User not found'')"
    by (simp add: mock_login_def array_find_def mockUsers_def
        ReaderJoe_def WriterJane_def AdminAlex_def DevSam_def)
  show ?thesis
    using f
      AuthProvider_login_failure [of "mock_login mockUsers" "''nobody@test.com''" "''pw''"
        "Error ''User not found''" user.username
        "\<lparr>currentUser = Value ReaderJoe, sessionStorage = [''user'' \<mapsto> ''ReaderJoe''], writable = True\<rparr>"]
      AuthProvider_login_failure [of "\<lambda>eml pass. Inr Undefined" "''a@b.c''" "''pw''"
        "Error []" user.username
        "\<lparr>currentUser = Null, sessionStorage = Map.empty, writable = True\<rparr>"]
    by simp
qed

section \<open>Novels by tag\<close>

text \<open>
  C8. \<^verbatim>\<open>getFantasyNovels\<close> of the mock service returns six novels, and each of them
  has \<^verbatim>\<open>Fantasy\<close> among its tags. (The service takes the novels at positions 6 to 11 of
  the fixture without looking at their tags; every novel of the fixture carries the tag.)
\<close>

theorem mock_getFantasyNovels_tagged:
  "length (mock_getFantasyNovels clock) = 6
   \<and> (\<forall>nv\<in>set (mock_getFantasyNovels clock). ''Fantasy'' \<in> set (tags nv))"
proof
  show "length (mock_getFantasyNovels clock) = 6"
    by (simp add: mock_getFantasyNovels_def slice_def mockNovels_length)
  show "\<forall>nv\<in>set (mock_getFantasyNovels clock). ''Fantasy'' \<in> set (tags nv)"
  proof
    fix nv assume "nv \<in> set (mock_getFantasyNovels clock)"
    then have "nv \<in> set (mockNovels clock)"
      using set_slice [of "mockNovels clock" 6 12] unfolding mock_getFantasyNovels_def by blast
    then show "''Fantasy'' \<in> set (tags nv)" by (simp add: mockNovel_tags)
  qed
qed

text \<open>The theorem at the first novel returned.\<close>

theorem mock_getFantasyNovels_tagged_witness:
  "mock_getFantasyNovels (\<lambda>k. 0) \<noteq> []
   \<and> hd (mock_getFantasyNovels (\<lambda>k. 0)) \<in> set (mock_getFantasyNovels (\<lambda>k. 0))
   \<and> ''Fantasy'' \<in> set (tags (hd (mock_getFantasyNovels (\<lambda>k. 0))))"
proof -
  from mock_getFantasyNovels_tagged [of "\<lambda>k. 0"]
  have l: "length (mock_getFantasyNovels (\<lambda>k. 0)) = 6"
    and t: "\<forall>nv\<in>set (mock_getFantasyNovels (\<lambda>k. 0)). ''Fantasy'' \<in> set (tags nv)" by blast+
  from l have ne: "mock_getFantasyNovels (\<lambda>k. 0) \<noteq> []" by auto
  then have "hd (mock_getFantasyNovels (\<lambda>k. 0)) \<in> set (mock_getFantasyNovels (\<lambda>k. 0))" by simp
  with ne t show ?thesis by blast
qed

section \<open>Episodes\<close>

lemma enumerate_map_upt: "enumerate 0 (map f [0..<n]) = map (\<lambda>k. (k, f k)) [0..<n]"
  by (simp add: enumerate_eq_zip zip_map2 zip_same_conv_map)

lemma mockEpisodes_eq: "mockEpisodes clock = concat (map (novel_episodes clock) [0..<12])"
  by (simp add: mockEpisodes_def mockNovels_def enumerate_map_upt novel_episodes_def [abs_def] comp_def)

lemma novel_episodes_novel_id:
  "e \<in> set (novel_episodes clock k) \<Longrightarrow> episode.novel_id e = 101 + int k"
  by (auto simp: novel_episodes_def mockEpisode_def mockNovel_def)



lemma filter_novel_episodes:
  "filter (\<lambda>e. episode.novel_id e = n) (novel_episodes clock k)
     = (if n = 101 + int k then novel_episodes clock k else [])"
  using novel_episodes_novel_id [of _ clock k]
  by (auto simp: filter_empty_conv filter_id_conv)

lemma filter_concat_novel_episodes:
  "filter (\<lambda>e. episode.novel_id e = n) (concat (map (novel_episodes clock) [0..<N]))
     = (if 101 \<le> n \<and> n < 101 + int N then novel_episodes clock (nat (n - 101)) else [])"
proof (induction N)
  case 0
  then show ?case by auto
next
  case (Suc N)
  show ?case
  proof (cases "n = 101 + int N")
    case True
    then have "nat (n - 101) = N" by simp
    with True Suc show ?thesis by (simp add: filter_novel_episodes)
  next
    case False
    with Suc show ?thesis by (auto simp: filter_novel_episodes)
  qed
qed

lemma mock_getEpisodesByNovelId_eq:
  "mock_getEpisodesByNovelId clock n
     = (if 101 \<le> n \<and> n \<le> 112 then novel_episodes clock (nat (n - 101)) else [])"
  using filter_concat_novel_episodes [of n clock 12]
  by (auto simp: mock_getEpisodesByNovelId_def mockEpisodes_eq)

lemma sorted_map_upt:
  assumes "\<And>i j. i \<le> j \<Longrightarrow> f i \<le> (f j :: int)"
  shows "sorted (map f [a..<b])"
proof -
  have "sorted_wrt (\<lambda>x y. f x \<le> f y) [a..<b]"
    by (rule sorted_wrt_mono_rel [OF _ sorted_wrt_upt]) (simp add: assms)
  then show ?thesis by (simp add: sorted_map)
qed

lemma novel_episodes_sorted:
  assumes "\<And>i j. i \<le> j \<Longrightarrow> clock i - clock j < 604800000"
  shows "sorted (map release_date (novel_episodes clock k))"
proof -
  have "map release_date (novel_episodes clock k)
          = map (\<lambda>i. clock (12 + 5 * k + i) - (5 - int i) * 604800000) [0..<5]"
    by (simp add: novel_episodes_def mockEpisode_def comp_def)
  moreover have "sorted (map (\<lambda>i. clock (12 + 5 * k + i) - (5 - int i) * 604800000) [0..<5])"
  proof (rule sorted_map_upt)
    fix i j :: nat assume le: "i \<le> j"
    show "clock (12 + 5 * k + i) - (5 - int i) * 604800000
        \<le> clock (12 + 5 * k + j) - (5 - int j) * 604800000"
    proof (cases "i = j")
      case True
      then show ?thesis by simp
    next
      case False
      with le have "int i + 1 \<le> int j" by simp
      moreover have "clock (12 + 5 * k + i) - clock (12 + 5 * k + j) < 604800000"
        using le by (intro assms) simp
      ultimately show ?thesis by (simp add: algebra_simps)
    qed
  qed
  ultimately show ?thesis by simp
qed

lemma findMany_Some:
  "prisma_episode_findMany db (Some k) = Inr eps \<Longrightarrow>
     available db \<and> eps = sort_key release_date (filter (\<lambda>e. episode.novel_id e = k) (episodes db))"
  by (auto simp: prisma_episode_findMany_def split: if_splits)

lemma handler_status_200:
  "status (handler db req) = 200 \<longleftrightarrow>
     req_method req = ''GET'' \<and> available db \<and> parseInt (query_novelId req) None \<noteq> None"
  by (auto simp: handler_def Let_def error_response_def prisma_episode_findMany_def
      split: sum.splits option.splits if_splits)

lemma handler_body_200:
  assumes "status (handler db req) = 200"
  shows "\<exists>k. parseInt (query_novelId req) None = Some k
           \<and> body (handler db req)
               = Inr (JArr (map episode_json
                   (sort_key release_date (filter (\<lambda>e. episode.novel_id e = k) (episodes db)))))"
  using assms
  by (auto simp: handler_def Let_def error_response_def prisma_episode_findMany_def
      split: sum.splits option.splits if_splits)

text \<open>
  C6. \<^verbatim>\<open>getEpisodesByNovelId\<close> of the mock service filters the fixture and does not
  sort; the fixture holds the episodes of each novel in ascending order of
  \<^verbatim>\<open>release_date\<close> as long as the clock read while it is built does not fall back by
  a week (604800000 ms) or more, so the result is sorted, and every episode returned
  belongs to the novel asked for.
  The episodes route, whenever it answers 200, sends the array of exactly the episodes
  of the novel whose id it parsed from the query, in ascending order of
  \<^verbatim>\<open>release_date\<close>.
\<close>

theorem getEpisodesByNovelId_sorted:
  "((\<forall>i j. i \<le> j \<longrightarrow> clock i - clock j < 604800000)
      \<longrightarrow> sorted (map release_date (mock_getEpisodesByNovelId clock n)))
   \<and> (\<forall>e\<in>set (mock_getEpisodesByNovelId clock n). episode.novel_id e = n)
   \<and> (status (handler db req) = 200 \<longrightarrow>
        (\<exists>k eps. parseInt (query_novelId req) None = Some k
           \<and> body (handler db req) = Inr (JArr (map episode_json eps))
           \<and> sorted (map release_date eps)
           \<and> set eps = {e \<in> set (episodes db). episode.novel_id e = k}))"
proof (intro conjI impI)
  assume "\<forall>i j. i \<le> j \<longrightarrow> clock i - clock j < 604800000"
  then show "sorted (map release_date (mock_getEpisodesByNovelId clock n))"
    by (simp add: mock_getEpisodesByNovelId_eq novel_episodes_sorted)
next
  show "\<forall>e\<in>set (mock_getEpisodesByNovelId clock n). episode.novel_id e = n"
    by (simp add: mock_getEpisodesByNovelId_def)
next
  assume "status (handler db req) = 200"
  from handler_body_200 [OF this] obtain k where
    k: "parseInt (query_novelId req) None = Some k"
      "body (handler db req) = Inr (JArr (map episode_json
          (sort_key release_date (filter (\<lambda>e. episode.novel_id e = k) (episodes db)))))"
    by blast
  let ?eps = "sort_key release_date (filter (\<lambda>e. episode.novel_id e = k) (episodes db))"
  have "sorted (map release_date ?eps)" by (rule sorted_sort_key)
  moreover have "set ?eps = {e \<in> set (episodes db). episode.novel_id e = k}" by auto
  ultimately show "\<exists>k eps. parseInt (query_novelId req) None = Some k
           \<and> body (handler db req) = Inr (JArr (map episode_json eps))
           \<and> sorted (map release_date eps)
           \<and> set eps = {e \<in> set (episodes db). episode.novel_id e = k}"
    using k by blast
qed

text \<open>The theorem for novel 101 of the fixture, with the clock \<open>0, 1, 2, \<dots>\<close>, and
  for a \<^verbatim>\<open>GET\<close> of novel 7 on the example store.\<close>

theorem getEpisodesByNovelId_sorted_witness:
  "mono (\<lambda>k. int k)
   \<and> length (mock_getEpisodesByNovelId (\<lambda>k. int k) 101) = 5
   \<and> sorted (map release_date (mock_getEpisodesByNovelId (\<lambda>k. int k) 101))
   \<and> list_all (\<lambda>e. episode.novel_id e = 101) (mock_getEpisodesByNovelId (\<lambda>k. int k) 101)
   \<and> status (handler example_database \<lparr>req_method = ''GET'', query_novelId = ''7''\<rparr>) = 200
   \<and> (\<exists>eps. body (handler example_database \<lparr>req_method = ''GET'', query_novelId = ''7''\<rparr>)
                = Inr (JArr (map episode_json eps))
          \<and> sorted (map release_date eps)
          \<and> set eps = {example_episode 72 7 2000, example_episode 71 7 1000})"
proof -
  have m: "\<forall>i j. i \<le> j \<longrightarrow> int i - int j < 604800000" by simp
  have l: "length (mock_getEpisodesByNovelId (\<lambda>k. int k) 101) = 5"
    by (simp add: mock_getEpisodesByNovelId_eq novel_episodes_def)
  have p: "parseInt ''7'' None = Some 7"
    by (simp add: parseInt_def Let_def isStrWhiteSpaceChar_def is_radix_digit_def digit_value_def
        radix_value_def)
  have st: "status (handler example_database \<lparr>req_method = ''GET'', query_novelId = ''7''\<rparr>) = 200"
    by (simp add: handler_def Let_def p prisma_episode_findMany_def example_database_def)
  have s: "{e \<in> set (episodes example_database). episode.novel_id e = 7}
             = {example_episode 72 7 2000, example_episode 71 7 1000}"
    by (auto simp: example_database_def example_episode_def)
  from getEpisodesByNovelId_sorted [of "\<lambda>k. int k" 101 example_database
      "\<lparr>req_method = ''GET'', query_novelId = ''7''\<rparr>"] m l st p s
  show ?thesis by (auto simp: list_all_iff mono_def)
qed














section \<open>Failures of the data access layer\<close>

text \<open>
  C7, as the services have it. No failure is turned into one of the kinds
  \<^verbatim>\<open>NotFoundError\<close>, \<^verbatim>\<open>ConflictError\<close>, \<^verbatim>\<open>TransportError\<close>. \<^verbatim>\<open>fetchAPI\<close>, through
  which every remote operation goes, fails in exactly these ways: with the rejection
  of \<^verbatim>\<open>fetch\<close> itself, unchanged; with the rejection of \<^verbatim>\<open>response.json()\<close>,
  unchanged, whether the response is ok or not; and, for a response that is not ok and
  has a JSON body, with the \<^verbatim>\<open>TypeError\<close> of reading \<^verbatim>\<open>error\<close> from \<^verbatim>\<open>null\<close> or with
  a plain \<^verbatim>\<open>Error\<close> whose message is the body's \<^verbatim>\<open>error\<close> member or the text
  \<^verbatim>\<open>API call failed with status N\<close>. \<^verbatim>\<open>login\<close> of the mock service fails only with the
  plain \<^verbatim>\<open>Error\<close> \<^verbatim>\<open>User not found\<close>.
\<close>

theorem DAL_failures_as_thrown:
  "(fetchAPI fetch url opts = Inl e \<longleftrightarrow>
      fetch url (spread defaultOptions opts) = Inl e
      \<or> (\<exists>r. fetch url (spread defaultOptions opts) = Inr r
            \<and> (body r = Inl e
                \<or> (\<not> ok r
                    \<and> (\<exists>d. body r = Inr d
                          \<and> (get_property d ''error'' = Inl e
                              \<or> (\<exists>m. get_property d ''error'' = Inr m
                                    \<and> e = Error (error_message m (status r)))))))))
   \<and> (mock_login users eml pass = Inl e \<longrightarrow> e = Error ''User not found'')"
proof
  show "fetchAPI fetch url opts = Inl e \<longleftrightarrow>
      fetch url (spread defaultOptions opts) = Inl e
      \<or> (\<exists>r. fetch url (spread defaultOptions opts) = Inr r
            \<and> (body r = Inl e
                \<or> (\<not> ok r
                    \<and> (\<exists>d. body r = Inr d
                          \<and> (get_property d ''error'' = Inl e
                              \<or> (\<exists>m. get_property d ''error'' = Inr m
                                    \<and> e = Error (error_message m (status r))))))))"
  proof (cases "fetch url (spread defaultOptions opts)")
    case (Inl a)
    then show ?thesis by (simp add: fetchAPI_def)
  next
    case (Inr r)
    show ?thesis
    proof (cases "ok r")
      case True
      with Inr show ?thesis by (simp add: fetchAPI_def)
    next
      case False
      show ?thesis
      proof (cases "body r")
        case (Inl a)
        with Inr False show ?thesis by (simp add: fetchAPI_def)
      next
        case d: (Inr d)
        show ?thesis
        proof (cases "get_property d ''error''")
          case (Inl a)
          with Inr False d show ?thesis by (simp add: fetchAPI_def)
        next
          case m: (Inr m)
          with Inr False d show ?thesis by (auto simp: fetchAPI_def)
        qed
      qed
    qed
  qed
  show "mock_login users eml pass = Inl e \<longrightarrow> e = Error ''User not found''"
    by (auto simp: mock_login_def split: nullable.splits if_splits)
qed

text \<open>The theorem for a network that is down, for a \<^verbatim>\<open>POST\<close> that the episodes route
  refuses with 405, and for an unknown address on the mock service.\<close>

theorem DAL_failures_as_thrown_witness:
  "remote_getEpisodesByNovelId offline_fetch 101 = Inl (TypeError ''Failed to fetch'')
   \<and> fetchAPI (server_fetch example_database) ''/api/novels/7/episodes''
        \<lparr>http_method = Some ''POST'', headers = None, payload = None\<rparr>
       = Inl (Error ''Method not allowed'')
   \<and> mock_login mockUsers ''nobody@test.com'' ''pw'' = Inl (Error ''User not found'')"
proof -
  have a: "offline_fetch (''/api/novels/'' @ number_to_string 101 @ ''/episodes'')
             (spread defaultOptions no_options) = Inl (TypeError ''Failed to fetch'')"
    by (simp add: offline_fetch_def)
  have b: "remote_getEpisodesByNovelId offline_fetch 101 = Inl (TypeError ''Failed to fetch'')"
    unfolding remote_getEpisodesByNovelId_def
    using DAL_failures_as_thrown [of offline_fetch "''/api/novels/'' @ number_to_string 101 @ ''/episodes''"
        no_options "TypeError ''Failed to fetch''"] a
    by blast
  let ?post = "\<lparr>http_method = Some ''POST'', headers = None, payload = None\<rparr>"
  let ?r = "error_response 405 ''Method not allowed''"
  have f: "server_fetch example_database ''/api/novels/7/episodes'' (spread defaultOptions ?post) = Inr ?r"
    by (simp add: server_fetch_def startsWith_def endsWith_def handler_def Let_def spread_def
        defaultOptions_def)
  have g: "\<not> ok ?r \<and> body ?r = Inr (JObj [(''error'', JStr ''Method not allowed'')])
           \<and> get_property (JObj [(''error'', JStr ''Method not allowed'')]) ''error''
               = Inr (Value (JStr ''Method not allowed''))
           \<and> Error ''Method not allowed''
               = Error (error_message (Value (JStr ''Method not allowed'')) (status ?r))"
    by (simp add: ok_def error_response_def get_property_def error_message_def)
  have c: "fetchAPI (server_fetch example_database) ''/api/novels/7/episodes'' ?post
             = Inl (Error ''Method not allowed'')"
    using DAL_failures_as_thrown [of "server_fetch example_database" "''/api/novels/7/episodes''" ?post
        "Error ''Method not allowed''"] f g
    by blast
  have d: "mock_login mockUsers ''nobody@test.com'' ''pw'' = Inl (Error ''User not found'')"
    by (simp add: mock_login_def array_find_def mockUsers_def
        ReaderJoe_def WriterJane_def AdminAlex_def DevSam_def)
  from b c d show ?thesis by blast
qed

text \<open>
  The claim of the specification fails there: the \<^verbatim>\<open>TypeError\<close> of a rejected
  \<^verbatim>\<open>fetch\<close> and the \<^verbatim>\<open>SyntaxError\<close> of an error body that is not JSON leave
  \<^verbatim>\<open>getEpisode\<close> as they were thrown, and the mock \<^verbatim>\<open>login\<close> throws a plain
  \<^verbatim>\<open>Error\<close>; none of them is one of the three kinds.
\<close>

theorem DAL_failures_normalized_counterexample:
  "remote_getEpisode offline_fetch 101 10101 = Inl (TypeError ''Failed to fetch'')
   \<and> \<not> is_normalized (TypeError ''Failed to fetch'')
   \<and> remote_getEpisode bad_gateway_fetch 101 10101
       = Inl (SyntaxError ''Unexpected token < in JSON at position 0'')
   \<and> \<not> is_normalized (SyntaxError ''Unexpected token < in JSON at position 0'')
   \<and> mock_login mockUsers ''nobody@test.com'' ''pw'' = Inl (Error ''User not found'')
   \<and> \<not> is_normalized (Error ''User not found'')"
  by (simp add: remote_getEpisode_def remote_getEpisodesByNovelId_def fetchAPI_def
      offline_fetch_def bad_gateway_fetch_def ok_def
      mock_login_def array_find_def mockUsers_def
      ReaderJoe_def WriterJane_def AdminAlex_def DevSam_def)

section \<open>The reply forest\<close>

lemma attach_comments:
  "d \<in> set (thread_comments (attach fuel children c)) \<Longrightarrow>
     d = c \<or> (d \<in> set children
              \<and> (\<exists>q\<in>insert c (set children). parent_comment_id d = Some (comment_id q)))"
proof (induction fuel arbitrary: c)
  case 0
  then show ?case by simp
next
  case (Suc fuel)
  show ?case
  proof (cases "d = c")
    case True
    then show ?thesis by simp
  next
    case False
    with Suc.prems obtain x where x: "x \<in> set children"
      "parent_comment_id x = Some (comment_id c)"
      "d \<in> set (thread_comments (attach fuel children x))"
      by auto
    from Suc.IH [OF x(3)] x(1,2) show ?thesis by auto
  qed
qed

text \<open>
  C9. A comment whose \<^verbatim>\<open>parent_comment_id\<close> is the \<^verbatim>\<open>comment_id\<close> of no comment of
  the input occurs nowhere in the forest built from the input, neither as a root nor as
  a reply at any depth.
\<close>

theorem orphan_not_in_forest:
  assumes "parent_comment_id c = Some p"
    and "p \<notin> comment_id ` set cs"
  shows "c \<notin> set (forest_comments (build_threads cs))"
proof
  assume "c \<in> set (forest_comments (build_threads cs))"
  then obtain r where r: "r \<in> set cs" "parent_comment_id r = None"
    "c \<in> set (thread_comments
        (attach (length (filter (\<lambda>c. parent_comment_id c \<noteq> None) cs))
           (filter (\<lambda>c. parent_comment_id c \<noteq> None) cs) r))"
    by (auto simp: forest_comments_def build_threads_def Let_def)
  from attach_comments [OF r(3)] assms(1) r(2)
  obtain q where "q \<in> insert r (set (filter (\<lambda>c. parent_comment_id c \<noteq> None) cs))"
    "parent_comment_id c = Some (comment_id q)" by auto
  with r(1) assms(1) have "p \<in> comment_id ` set cs" by auto
  with assms(2) show False by contradiction
qed

text \<open>The theorem for a root (id 1), a reply to it (id 3) and a reply to a comment 99
  that is not in the input: the forest is the root with its one reply.\<close>

theorem orphan_not_in_forest_witness:
  "parent_comment_id (example_comment 4 (Some 99)) = Some 99
   \<and> 99 \<notin> comment_id ` set [example_comment 1 None, example_comment 3 (Some 1), example_comment 4 (Some 99)]
   \<and> example_comment 4 (Some 99)
        \<notin> set (forest_comments (build_threads
              [example_comment 1 None, example_comment 3 (Some 1), example_comment 4 (Some 99)]))
   \<and> build_threads [example_comment 1 None, example_comment 3 (Some 1), example_comment 4 (Some 99)]
       = [Thread (example_comment 1 None) [Thread (example_comment 3 (Some 1)) []]]"
proof -
  let ?cs = "[example_comment 1 None, example_comment 3 (Some 1), example_comment 4 (Some 99)]"
  have p: "parent_comment_id (example_comment 4 (Some 99)) = Some 99"
    by (simp add: example_comment_def)
  have n: "99 \<notin> comment_id ` set ?cs" by (simp add: example_comment_def)
  have b: "build_threads ?cs = [Thread (example_comment 1 None) [Thread (example_comment 3 (Some 1)) []]]"
    by (simp add: build_threads_def Let_def example_comment_def numeral_2_eq_2)
  from orphan_not_in_forest [OF p n] p n b show ?thesis by blast
qed

text \<open>
  The fuel of the transform is enough: when the comment ids of the input are distinct,
  no chain of replies is longer than the number of children, and any larger amount of
  fuel builds the same forest.
\<close>

lemma chain_parent_later:
  "chain r (x # path) \<Longrightarrow> d \<in> set (x # path) \<Longrightarrow>
     \<exists>q\<in>insert r (set path). parent_comment_id d = Some (comment_id q)"
proof (induction path arbitrary: x d)
  case Nil
  then show ?case by simp
next
  case (Cons y ys)
  show ?case
  proof (cases "d = x")
    case True
    with Cons.prems show ?thesis by simp
  next
    case False
    with Cons.prems have "chain r (y # ys)" "d \<in> set (y # ys)" by simp_all
    from Cons.IH [OF this] show ?thesis by auto
  qed
qed

lemma chain_extend:
  "chain r path \<Longrightarrow> parent_comment_id d = Some (comment_id (tip r path)) \<Longrightarrow> chain r (d # path)"
  by (cases path) (simp_all add: tip_def)

lemma reply_not_on_chain:
  assumes inj: "inj_on comment_id (insert r (set children))"
    and root: "parent_comment_id r = None"
    and ch: "chain r path" "distinct path" "set path \<subseteq> set children"
    and d: "parent_comment_id d = Some (comment_id (tip r path))"
    and par: "\<forall>x\<in>set children. parent_comment_id x \<noteq> None"
  shows "d \<notin> set path"
proof
  assume mem: "d \<in> set path"
  then obtain x p where path: "path = x # p" by (cases path) auto
  from chain_parent_later [of r x p d] ch(1) mem path
  obtain q where q: "q \<in> insert r (set p)" "parent_comment_id d = Some (comment_id q)" by blast
  from d path have "parent_comment_id d = Some (comment_id x)" by (simp add: tip_def)
  with q(2) have eq: "comment_id q = comment_id x" by simp
  have qm: "q \<in> insert r (set children)" and xm: "x \<in> insert r (set children)"
    using q(1) ch(3) path by auto
  have qx: "q = x" by (rule inj_onD [OF inj eq qm xm])
  from q(1) show False
  proof
    assume "q = r"
    with qx root par ch(3) path show False by auto
  next
    assume "q \<in> set p"
    with qx ch(2) path show False by simp
  qed
qed

lemma distinct_subset_length:
  "distinct xs \<Longrightarrow> set xs \<subseteq> set ys \<Longrightarrow> length xs \<le> length ys"
  by (metis card_length card_mono distinct_card finite_set le_trans)

lemma attach_fuel_step:
  assumes inj: "inj_on comment_id (insert r (set children))"
    and root: "parent_comment_id r = None"
    and par: "\<forall>x\<in>set children. parent_comment_id x \<noteq> None"
  shows "chain r path \<Longrightarrow> distinct path \<Longrightarrow> set path \<subseteq> set children \<Longrightarrow>
     length children \<le> fuel + length path \<Longrightarrow>
     attach (Suc fuel) children (tip r path) = attach fuel children (tip r path)"
proof (induction fuel arbitrary: path)
  case 0
  have "filter (\<lambda>d. parent_comment_id d = Some (comment_id (tip r path))) children = []"
  proof (rule ccontr)
    assume "filter (\<lambda>d. parent_comment_id d = Some (comment_id (tip r path))) children \<noteq> []"
    then obtain d where d: "d \<in> set children" "parent_comment_id d = Some (comment_id (tip r path))"
      by (auto simp: filter_empty_conv)
    from reply_not_on_chain [OF inj root "0.prems"(1,2,3) d(2) par]
    have "distinct (d # path)" "set (d # path) \<subseteq> set children"
      using "0.prems" d(1) by auto
    from distinct_subset_length [OF this] "0.prems"(4) show False by simp
  qed
  then show ?case by simp
next
  case (Suc fuel)
  have "attach (Suc fuel) children d = attach fuel children d"
    if d: "d \<in> set children" "parent_comment_id d = Some (comment_id (tip r path))" for d
  proof -
    from reply_not_on_chain [OF inj root Suc.prems(1,2,3) d(2) par]
    have dist: "distinct (d # path)" and sub: "set (d # path) \<subseteq> set children"
      using Suc.prems d(1) by auto
    have c: "chain r (d # path)" using chain_extend [OF Suc.prems(1) d(2)] .
    have "length children \<le> fuel + length (d # path)" using Suc.prems(4) by simp
    from Suc.IH [OF c dist sub this] show ?thesis by (simp add: tip_def)
  qed
  then show ?case by simp
qed

lemma attach_fuel_enough:
  assumes "inj_on comment_id (insert r (set children))"
    and "parent_comment_id r = None"
    and "\<forall>x\<in>set children. parent_comment_id x \<noteq> None"
  shows "attach (length children + k) children r = attach (length children) children r"
proof (induction k)
  case 0
  then show ?case by simp
next
  case (Suc k)
  from attach_fuel_step [OF assms, of "[]" "length children + k"]
  have "attach (Suc (length children + k)) children r = attach (length children + k) children r"
    by (simp add: tip_def)
  with Suc show ?case by simp
qed

lemma build_threads_fuel_enough:
  assumes "distinct (map comment_id cs)"
  shows "map (attach (length (filter (\<lambda>c. parent_comment_id c \<noteq> None) cs) + k)
                (filter (\<lambda>c. parent_comment_id c \<noteq> None) cs))
             (filter (\<lambda>c. parent_comment_id c = None) cs)
           = build_threads cs"
proof -
  let ?ch = "filter (\<lambda>c. parent_comment_id c \<noteq> None) cs"
  have inj: "inj_on comment_id (set cs)" using assms by (simp add: distinct_map)
  have "attach (length ?ch + k) ?ch r = attach (length ?ch) ?ch r"
    if r: "r \<in> set cs" "parent_comment_id r = None" for r
  proof (rule attach_fuel_enough)
    show "inj_on comment_id (insert r (set ?ch))"
      by (rule inj_on_subset [OF inj]) (use r in auto)
  qed (use r in auto)
  then show ?thesis by (simp add: build_threads_def Let_def)
qed

end
